theory Spec2Isabelle
  imports Main
begin

section \<open>Package cfg: strings, the store and its accessors\<close>

text \<open>
  Go strings are modelled as \<^typ>\<open>string\<close>, one \<^typ>\<open>char\<close> per rune. This is exact for
  ASCII text, where a rune is a byte and the index of \<open>range\<close> is the position in the
  list. The lock of the store is left out: the model is sequential.
\<close>

subsection \<open>The functions of package strings that cfg.go calls\<close>

text \<open>\<open>strings.ToLower\<close> on ASCII: the letters \<open>A\<close> to \<open>Z\<close> are mapped, every other character is kept.\<close>

definition toLower_char :: "char \<Rightarrow> char" where
  "toLower_char c =
     (case map_of (zip ''ABCDEFGHIJKLMNOPQRSTUVWXYZ'' ''abcdefghijklmnopqrstuvwxyz'') c of
        Some d \<Rightarrow> d
      | None \<Rightarrow> c)"

definition ToLower :: "string \<Rightarrow> string" where
  "ToLower s = map toLower_char s"

definition is_space :: "char \<Rightarrow> bool" where
  "is_space c = (c = CHR '' '' \<or> c = CHR 0x09 \<or> c = CHR 0x0A \<or> c = CHR 0x0B
                 \<or> c = CHR 0x0C \<or> c = CHR 0x0D)"

definition TrimSpace :: "string \<Rightarrow> string" where
  "TrimSpace s = rev (dropWhile is_space (rev (dropWhile is_space s)))"

definition HasPrefix :: "string \<Rightarrow> string \<Rightarrow> bool" where
  "HasPrefix s p = (take (length p) s = p)"

definition ContainsAny :: "string \<Rightarrow> string \<Rightarrow> bool" where
  "ContainsAny s chars = (\<exists>c \<in> set s. c \<in> set chars)"

text \<open>\<open>strings.Replace(val, "\\", "", -1)\<close>: every backslash is removed.\<close>

definition strip_escape :: "string \<Rightarrow> string" where
  "strip_escape v = filter (\<lambda>c. c \<noteq> CHR 0x5C) v"

text \<open>\<open>strings.Split(b, "=")[0]\<close>: the text before the first \<open>=\<close>, or all of \<open>b\<close>.\<close>

definition Split_first :: "string \<Rightarrow> string" where
  "Split_first b = takeWhile (\<lambda>c. c \<noteq> CHR ''='') b"

subsection \<open>The store\<close>

type_synonym keymap = "string \<rightharpoonup> string list"

record Store =
  store_file :: string
  cfgStore :: "string \<rightharpoonup> keymap"

text \<open>
  The four flag bits. A flag word is modelled by the set of the bits that are set in it:
  \<open>flag |= b\<close> inserts \<open>b\<close>, \<open>flag &^= b\<close> removes it, and \<open>flag & b != 0\<close> is membership.
\<close>

datatype cfg_flag = cfg_HEADER | cfg_KEY | cfg_COMMA | cfg_ESCAPE

datatype error =
    SyntaxError string nat
  | InvalidChar char string
  | OpenError string

text \<open>
  A lookup \<open>s.cfgStore[section][key]\<close>: a missing section is a nil map in Go, and a
  lookup in a nil map finds nothing.
\<close>

definition lookup2 :: "(string \<rightharpoonup> keymap) \<Rightarrow> string \<Rightarrow> string \<Rightarrow> string list option" where
  "lookup2 m section key = (case m section of None \<Rightarrow> None | Some km \<Rightarrow> km key)"

text \<open>
  \<open>Get\<close> writes the stripped values back through the slice it read, which shares its
  array with the slice held by the map: the store it leaves is part of the result.
  The values it prints on standard output are not modelled.
\<close>

definition Get :: "Store \<Rightarrow> string \<Rightarrow> string \<Rightarrow> string list \<times> Store" where
  "Get s section0 key0 =
     (let section = ToLower section0; key = ToLower key0 in
      case lookup2 (cfgStore s) section key of
        None \<Rightarrow> ([''''], s)
      | Some result \<Rightarrow>
          if length result = 0 then ([''''], s)
          else
            (let result' = map strip_escape result in
             (result',
              s\<lparr>cfgStore := (cfgStore s)(section \<mapsto> (the (cfgStore s section))(key \<mapsto> result'))\<rparr>)))"

text \<open>
  \<open>ListKeys\<close> ranges over a Go map, whose order is not fixed: the slice returned is
  modelled by the set of its elements, nil being the empty set.
\<close>

definition ListKeys :: "Store \<Rightarrow> string \<Rightarrow> string set" where
  "ListKeys s section = (case cfgStore s section of None \<Rightarrow> {} | Some v \<Rightarrow> dom v)"

definition ListSections :: "Store \<Rightarrow> string set" where
  "ListSections s = dom (cfgStore s)"

text \<open>
  \<open>Exists\<close>, statement by statement: the first test returns as soon as the section is
  found, before the number of arguments is looked at again.
\<close>

definition Exists :: "Store \<Rightarrow> string list \<Rightarrow> bool" where
  "Exists s input =
     (let inlen = length input in
      if inlen = 0 then False
      else
        (let found = (cfgStore s (input ! 0) \<noteq> None) in
         if found then found
         else if inlen > 1 then
           (if found = True then lookup2 (cfgStore s) (input ! 0) (input ! 1) \<noteq> None
            else found)
         else found))"

section \<open>Reading a file\<close>

subsection \<open>Files and bufio.Scanner\<close>

text \<open>
  The file system is a map from paths to contents. A \<open>bufio.Scanner\<close> with the
  default split function yields the text between newlines, without one trailing carriage
  return, and a last unterminated line when it is not empty. The scanner's limit on the
  length of a line (64 KiB) is not modelled.
\<close>

type_synonym filesys = "string \<rightharpoonup> string"

definition dropCR :: "string \<Rightarrow> string" where
  "dropCR data = (if data \<noteq> [] \<and> last data = CHR 0x0D then butlast data else data)"

fun scan_from :: "string \<Rightarrow> string \<Rightarrow> string list" where
  "scan_from tok [] = (if tok = [] then [] else [dropCR tok])"
| "scan_from tok (c # cs) =
     (if c = CHR 0x0A then dropCR tok # scan_from [] cs else scan_from (tok @ [c]) cs)"

definition ScanLines :: "string \<Rightarrow> string list" where
  "ScanLines content = scan_from [] content"

subsection \<open>Load\<close>

text \<open>
  The local variables of \<open>Load\<close> that live across lines. \<open>p_out\<close> is the map of the
  store being built.
\<close>

record pstate =
  p_flag :: "cfg_flag set"
  p_last :: nat
  p_buf :: string
  p_section :: string
  p_key :: string
  p_val :: "string list"
  p_out :: "string \<rightharpoonup> keymap"

text \<open>
  What the body of the loop over the characters of a line does: go on with the next
  character, go on with the next line (\<open>continue scanLoop\<close>), return an error with the
  store built so far, or panic.
\<close>

datatype step = Continue pstate | ContinueScan pstate | Return pstate error | Panic

datatype 'a outcome = Returned 'a | Panicked

definition cfgErr :: "string \<Rightarrow> nat \<Rightarrow> error" where
  "cfgErr f line = SyntaxError f line"

text \<open>\<open>setKey\<close> and \<open>addVal\<close> read the buffer and reset it.\<close>

definition setKey :: "pstate \<Rightarrow> pstate" where
  "setKey st = st\<lparr>p_key := ToLower (TrimSpace (p_buf st)), p_buf := []\<rparr>"

definition addVal :: "pstate \<Rightarrow> pstate" where
  "addVal st = st\<lparr>p_val := p_val st @ [TrimSpace (p_buf st)], p_buf := []\<rparr>"

text \<open>\<open>txt[lo:hi]\<close>, for \<open>lo \<le> hi \<le> len(txt)\<close>.\<close>

definition slice :: "string \<Rightarrow> nat \<Rightarrow> nat \<Rightarrow> string" where
  "slice txt lo hi = take (hi - lo) (drop lo txt)"

text \<open>The \<open>default\<close> case of the switch, which the backslash case falls through to.\<close>

definition load_default :: "string \<Rightarrow> nat \<Rightarrow> nat \<Rightarrow> nat \<Rightarrow> char \<Rightarrow> pstate \<Rightarrow> step" where
  "load_default f line l i ch st =
     (if p_buf st = [] \<and> (ch = CHR '' '' \<or> ch = CHR 0x09) then Continue st
      else
        (let st1 = st\<lparr>p_flag := p_flag st - {cfg_COMMA}\<rparr> in
         if i = l - 1 \<and> p_buf st1 \<noteq> [] then Return st1 (cfgErr f line)
         else Continue (st1\<lparr>p_buf := p_buf st1 @ [ch]\<rparr>)))"

text \<open>
  One character of a line of \<open>Load\<close>. Storing a key under a section that is not in the
  map is an assignment to an entry of a nil map, which panics in Go.
\<close>

definition load_char :: "string \<Rightarrow> nat \<Rightarrow> string \<Rightarrow> nat \<Rightarrow> char \<Rightarrow> pstate \<Rightarrow> step" where
  "load_char f line txt i ch st =
     (let l = length txt in
      if cfg_ESCAPE \<in> p_flag st then
        (if i = l - 1 \<and> p_buf st \<noteq> [] then Return st (cfgErr f line)
         else Continue (st\<lparr>p_buf := p_buf st @ [ch], p_flag := p_flag st - {cfg_ESCAPE}\<rparr>))
      else if ch = CHR ''['' then
        (if cfg_KEY \<in> p_flag st then Return st (cfgErr f (p_last st))
         else
           (let st1 = st\<lparr>p_last := line\<rparr> in
            if l > 2 \<and> ContainsAny txt ''[ & ]'' then
              (let section = ToLower (slice txt 1 (l - 2)) in
               ContinueScan (st1\<lparr>p_section := section,
                                 p_flag := insert cfg_HEADER (p_flag st1),
                                 p_out := (p_out st1)(section \<mapsto> Map.empty)\<rparr>))
            else Return st1 (cfgErr f line)))
      else if ch = CHR ''#'' then ContinueScan st
      else if ch = CHR ''='' then
        (if cfg_KEY \<in> p_flag st then Return st (cfgErr f line)
         else Continue ((setKey (st\<lparr>p_flag := insert cfg_KEY (p_flag st)\<rparr>))\<lparr>p_last := line\<rparr>))
      else if ch = CHR '','' then
        (if cfg_KEY \<notin> p_flag st then Return st (cfgErr f line)
         else
           (let st1 = (addVal st)\<lparr>p_last := line\<rparr> in
            Continue (st1\<lparr>p_flag := insert cfg_COMMA (p_flag st1)\<rparr>)))
      else if ch = CHR 0x0A then
        (if cfg_KEY \<notin> p_flag st then Return st (cfgErr f line)
         else if cfg_COMMA \<in> p_flag st then
           Continue (st\<lparr>p_flag := p_flag st - {cfg_COMMA}\<rparr>)
         else
           (let st1 = addVal (st\<lparr>p_flag := p_flag st - {cfg_HEADER} - {cfg_KEY}\<rparr>) in
            case p_out st1 (p_section st1) of
              None \<Rightarrow> Panic
            | Some km \<Rightarrow>
                ContinueScan
                  (st1\<lparr>p_out := (p_out st1)(p_section st1 \<mapsto> km(p_key st1 \<mapsto> p_val st1)),
                       p_val := [],
                       p_last := line\<rparr>)))
      else if ch = CHR 0x5C then
        load_default f line l i ch (st\<lparr>p_flag := insert cfg_ESCAPE (p_flag st)\<rparr>)
      else load_default f line l i ch st)"

fun load_chars :: "string \<Rightarrow> nat \<Rightarrow> string \<Rightarrow> nat \<Rightarrow> string \<Rightarrow> pstate \<Rightarrow> step" where
  "load_chars f line txt i [] st = ContinueScan st"
| "load_chars f line txt i (ch # cs) st =
     (case load_char f line txt i ch st of
        Continue st' \<Rightarrow> load_chars f line txt (Suc i) cs st'
      | r \<Rightarrow> r)"

text \<open>The loop over the lines, and the test made after it.\<close>

fun load_lines :: "string \<Rightarrow> nat \<Rightarrow> string list \<Rightarrow> pstate \<Rightarrow> (pstate \<times> error option) outcome" where
  "load_lines f line [] st =
     (if cfg_KEY \<in> p_flag st then Returned (st, Some (cfgErr f (p_last st)))
      else Returned (st, None))"
| "load_lines f line (t # ts) st =
     (let line' = line + 1; txt = t @ [CHR 0x0A] in
      if length txt < 2 then load_lines f line' ts st
      else
        (case load_chars f line' txt 0 txt st of
           Continue st' \<Rightarrow> load_lines f line' ts st'
         | ContinueScan st' \<Rightarrow> load_lines f line' ts st'
         | Return st' e \<Rightarrow> Returned (st', Some e)
         | Panic \<Rightarrow> Panicked))"

definition load_init :: pstate where
  "load_init = \<lparr>p_flag = {}, p_last = 0, p_buf = [], p_section = [], p_key = [],
                p_val = [], p_out = Map.empty\<rparr>"

text \<open>
  \<open>Load\<close> returns no store when the file cannot be opened, and otherwise the store
  built so far together with the error, if any.
\<close>

definition Load :: "filesys \<Rightarrow> string \<Rightarrow> (Store option \<times> error option) outcome" where
  "Load fs f =
     (case fs f of
        None \<Rightarrow> Returned (None, Some (OpenError f))
      | Some content \<Rightarrow>
          (case load_lines f 0 (ScanLines content) load_init of
             Returned (st, e) \<Rightarrow> Returned (Some \<lparr>store_file = f, cfgStore = p_out st\<rparr>, e)
           | Panicked \<Rightarrow> Panicked))"

section \<open>Writing a key\<close>

subsection \<open>SetFile\<close>

definition is_reserved :: "char \<Rightarrow> bool" where
  "is_reserved ch = (ch = CHR ''['' \<or> ch = CHR '']'' \<or> ch = CHR '','')"

text \<open>The first loop of \<open>SetFile\<close>: the first reserved character of the first value that has one.\<close>

fun check_values :: "string list \<Rightarrow> error option" where
  "check_values [] = None"
| "check_values (val # rest) =
     (case find is_reserved val of
        Some ch \<Rightarrow> Some (InvalidChar ch val)
      | None \<Rightarrow> check_values rest)"

text \<open>The closure \<open>no_end_comma\<close>: every character that is not a comma sets the result again.\<close>

definition no_end_comma :: "string \<Rightarrow> bool" where
  "no_end_comma input = foldl (\<lambda>no_comma ch. if ch = CHR '','' then False else True) True input"

text \<open>
  The test \<open>cfgSeek\<close> makes on a lower-cased line to decide that it assigns \<open>key\<close>: the
  line starts with the key, and the trimmed text before its first \<open>=\<close> is the key.
\<close>

definition key_line :: "string \<Rightarrow> string \<Rightarrow> bool" where
  "key_line key b = (HasPrefix b key \<and> TrimSpace (Split_first b) = key)"

text \<open>
  The closure \<open>cfgSeek\<close>. The arguments after the lines left to scan are the local
  variables \<open>line\<close>, \<open>upper\<close> and \<open>flag\<close>; \<open>lower\<close> is only set when the function returns.
\<close>

fun cfgSeek_loop ::
  "string \<Rightarrow> string \<Rightarrow> string list \<Rightarrow> nat \<Rightarrow> nat \<Rightarrow> cfg_flag set \<Rightarrow> nat \<times> int \<times> cfg_flag set" where
  "cfgSeek_loop section key [] line upper flag = (line, - 1, flag)"
| "cfgSeek_loop section key (t # ts) line0 upper flag =
     (let line = line0 + 1; b = ToLower t; l = length b in
      if (l > 0 \<and> b ! 0 = CHR ''#'') \<or> l = 0 then cfgSeek_loop section key ts line upper flag
      else if cfg_HEADER \<notin> flag \<and> HasPrefix b (''['' @ section @ '']'') then
        cfgSeek_loop section key ts line line (insert cfg_HEADER flag)
      else if cfg_HEADER \<in> flag \<and> b ! 0 = CHR ''['' then (upper, int upper + 1, flag)
      else if cfg_HEADER \<in> flag then
        (let found = (cfg_KEY \<notin> flag \<and> key_line key b);
             upper' = (if found then line - 1 else upper);
             flag' = (if found then insert cfg_KEY flag else flag)
         in if cfg_KEY \<in> flag' \<and> no_end_comma b then (upper', int line + 1, flag')
            else cfgSeek_loop section key ts line upper' flag')
      else cfgSeek_loop section key ts line upper flag)"

definition cfgSeek :: "string \<Rightarrow> string \<Rightarrow> string list \<Rightarrow> nat \<times> int \<times> cfg_flag set" where
  "cfgSeek section key src = cfgSeek_loop section key src 0 0 {}"

text \<open>
  The closure \<open>copyFile\<close>, on the lines of the source: the first loop consumes \<open>start\<close>
  lines, the second writes lines while \<open>line < end\<close> or \<open>end\<close> is \<open>-1\<close>.
\<close>

fun copy_loop :: "string list \<Rightarrow> nat \<Rightarrow> int \<Rightarrow> string" where
  "copy_loop [] line end = []"
| "copy_loop (t # ts) line end =
     (if int line < end \<or> end = - 1 then t @ [CHR 0x0A] @ copy_loop ts (Suc line) end else [])"

definition copyFile :: "string list \<Rightarrow> nat \<Rightarrow> int \<Rightarrow> string" where
  "copyFile src start end = copy_loop (drop start src) start end"

text \<open>The loop over the values that builds \<open>txt\<close>; an empty value ends it.\<close>

fun value_txt :: "string \<Rightarrow> nat \<Rightarrow> string list \<Rightarrow> string list" where
  "value_txt key i [] = []"
| "value_txt key i (str # rest) =
     (if str = [] then []
      else (if i = 0 then key @ '' = '' @ str
            else replicate (length (key @ '' = '')) CHR '' '' @ str)
           # value_txt key (Suc i) rest)"

text \<open>The loop that writes \<open>txt\<close> to the temporary file.\<close>

fun write_txt :: "cfg_flag set \<Rightarrow> int \<Rightarrow> nat \<Rightarrow> string list \<Rightarrow> string" where
  "write_txt flag txtL i [] = []"
| "write_txt flag txtL i (out # rest) =
     (if i = 0 \<and> cfg_HEADER \<notin> flag then [CHR 0x0A] @ out @ [CHR 0x0A]
      else if int i < txtL then out @ '','' @ [CHR 0x0A]
      else out @ [CHR 0x0A])
     @ write_txt flag txtL (Suc i) rest"

text \<open>
  \<open>SetFile\<close>. The only I/O failure modelled is that the file does not exist; the
  temporary file and every later operation on the files are taken to succeed. The
  content of the temporary file replaces the content of the file.
\<close>

definition SetFile ::
  "filesys \<Rightarrow> string \<Rightarrow> string \<Rightarrow> string \<Rightarrow> string list \<Rightarrow> filesys \<times> error option" where
  "SetFile fs f section0 key0 value =
     (case check_values value of
        Some e \<Rightarrow> (fs, Some e)
      | None \<Rightarrow>
          (let section = ToLower section0; key = ToLower key0 in
           case fs f of
             None \<Rightarrow> (fs, Some (OpenError f))
           | Some content \<Rightarrow>
               (let src = ScanLines content;
                    (head, tail, flag) = cfgSeek section key src;
                    txt = (if cfg_HEADER \<notin> flag then [''['' @ section @ '']''] else [])
                          @ value_txt key 0 value;
                    tmp = copyFile src 0 (int head)
                          @ write_txt flag (int (length txt) - 1) 0 txt
                          @ (if tail \<noteq> - 1 then copyFile src (nat (tail - 1)) (- 1) else [])
                in (fs(f \<mapsto> tmp), None))))"

subsection \<open>Store.Set\<close>

definition Set ::
  "filesys \<Rightarrow> Store \<Rightarrow> string \<Rightarrow> string \<Rightarrow> string list \<Rightarrow> filesys \<times> Store \<times> error option" where
  "Set fs s section0 key0 value =
     (let section = ToLower section0; key = ToLower key0; newValue = value in
      case SetFile fs (store_file s) section key newValue of
        (fs', Some err) \<Rightarrow> (fs', s, Some err)
      | (fs', None) \<Rightarrow>
          (let m = (case cfgStore s section of
                      None \<Rightarrow> (cfgStore s)(section \<mapsto> Map.empty)
                    | Some km \<Rightarrow> cfgStore s)
           in (fs', s\<lparr>cfgStore := m(section \<mapsto> (the (m section))(key \<mapsto> newValue))\<rparr>, None)))"

text \<open>
  The text of a list of lines, each followed by a newline, and what \<open>SetFile\<close> writes for
  the key when the header of the section is in the file.
\<close>

definition join_lines :: "string list \<Rightarrow> string" where
  "join_lines ls = concat (map (\<lambda>t. t @ [CHR 0x0A]) ls)"

definition key_block :: "string \<Rightarrow> string list \<Rightarrow> string" where
  "key_block key value =
     (let txt = value_txt key 0 value in write_txt {cfg_HEADER} (int (length txt) - 1) 0 txt)"

section \<open>Properties\<close>

subsection \<open>Helper lemmas\<close>

lemma find_Some_mem: "find P xs = Some x \<Longrightarrow> x \<in> set xs \<and> P x"
  by (induction xs) (auto split: if_splits)

lemma check_values_None:
  "check_values vs = None \<longleftrightarrow> (\<forall>v \<in> set vs. \<forall>c \<in> set v. \<not> is_reserved c)"
  by (induction vs) (auto simp: find_None_iff dest: find_Some_mem split: option.splits)

lemma check_values_Some:
  "check_values vs = Some e \<Longrightarrow>
   \<exists>ch val. e = InvalidChar ch val \<and> val \<in> set vs \<and> ch \<in> set val \<and> is_reserved ch"
  by (induction vs) (auto dest: find_Some_mem split: option.splits)

lemma Set_error:
  "check_values value = Some e \<Longrightarrow> Set fs s section key value = (fs, s, Some e)"
  by (simp add: Set_def SetFile_def)

lemma Set_success:
  "check_values value = None \<Longrightarrow> fs (store_file s) = Some content \<Longrightarrow>
   \<exists>fs'. Set fs s section key value =
     (fs', s\<lparr>cfgStore := (cfgStore s)(ToLower section \<mapsto>
          (case cfgStore s (ToLower section) of None \<Rightarrow> Map.empty | Some km \<Rightarrow> km)
            (ToLower key \<mapsto> value))\<rparr>, None)"
  by (auto simp add: Set_def SetFile_def Let_def split: prod.splits option.splits)

lemma Set_None_store:
  "Set fs s section key value = (fs', s', None) \<Longrightarrow>
   check_values value = None \<and>
   s' = s\<lparr>cfgStore := (cfgStore s)(ToLower section \<mapsto>
          (case cfgStore s (ToLower section) of None \<Rightarrow> Map.empty | Some km \<Rightarrow> km)
            (ToLower key \<mapsto> value))\<rparr>"
  by (auto simp add: Set_def SetFile_def Let_def split: prod.splits option.splits)



lemmas load_eval = Load_def ScanLines_def dropCR_def load_init_def load_char_def load_default_def
  cfgErr_def setKey_def addVal_def slice_def ContainsAny_def ToLower_def toLower_char_def
  TrimSpace_def is_space_def Let_def

subsection \<open>Get\<close>

text \<open>
  C8. For every store, \<open>Get\<close> looks the pair up under the lower-cased section and key.
  It returns the list holding one empty string when the pair is absent or the stored list
  is empty, and otherwise the stored values with every backslash removed.
\<close>

theorem Get_returns:
  "fst (Get s section key) =
     (case lookup2 (cfgStore s) (ToLower section) (ToLower key) of
        None \<Rightarrow> ['''']
      | Some vs \<Rightarrow> if vs = [] then [''''] else map (filter (\<lambda>c. c \<noteq> CHR 0x5C)) vs)"
  by (simp add: Get_def Let_def strip_escape_def split: option.split)

theorem Get_returns_witness:
  "fst (Get \<lparr>store_file = ''f'',
             cfgStore = [''s'' \<mapsto> [''k'' \<mapsto> [[CHR ''a'', CHR 0x5C, CHR ''b''], ''c'']]]\<rparr>
          ''S'' ''K'') = [''ab'', ''c'']
   \<and> fst (Get \<lparr>store_file = ''f'', cfgStore = [''s'' \<mapsto> [''k'' \<mapsto> []]]\<rparr> ''S'' ''K'') = ['''']
   \<and> fst (Get \<lparr>store_file = ''f'', cfgStore = [''s'' \<mapsto> Map.empty]\<rparr> ''S'' ''K'') = ['''']
   \<and> fst (Get \<lparr>store_file = ''f'', cfgStore = Map.empty\<rparr> ''S'' ''K'') = ['''']"
  by (simp add: Get_returns lookup2_def ToLower_def toLower_char_def)

text \<open>
  C10. \<open>Get\<close> is not a pure read. When the pair holds a non-empty list, the list
  returned is also the list the store holds afterwards: it has no backslash left, the
  store has changed if a stored value had one, and a second \<open>Get\<close> returns the same list
  and leaves the store as the first one left it.
\<close>

theorem Get_overwrites_store:
  assumes "lookup2 (cfgStore s) (ToLower section) (ToLower key) = Some vs" and "vs \<noteq> []"
  shows "fst (Get s section key) = map strip_escape vs
       \<and> lookup2 (cfgStore (snd (Get s section key))) (ToLower section) (ToLower key)
           = Some (map strip_escape vs)
       \<and> (\<forall>v \<in> set (map strip_escape vs). CHR 0x5C \<notin> set v)
       \<and> ((\<exists>v \<in> set vs. CHR 0x5C \<in> set v) \<longrightarrow> snd (Get s section key) \<noteq> s)
       \<and> Get (snd (Get s section key)) section key
           = (map strip_escape vs, snd (Get s section key))"
proof -
  let ?vs' = "map strip_escape vs"
  obtain km where km: "cfgStore s (ToLower section) = Some km" "km (ToLower key) = Some vs"
    using assms(1) by (auto simp: lookup2_def split: option.splits)
  let ?s' = "s\<lparr>cfgStore := (cfgStore s)(ToLower section \<mapsto> km(ToLower key \<mapsto> ?vs'))\<rparr>"
  have g: "Get s section key = (?vs', ?s')"
    using km assms(2) by (simp add: Get_def lookup2_def Let_def)
  have idem: "strip_escape (strip_escape x) = strip_escape x" for x
    by (simp add: strip_escape_def)
  have l': "lookup2 (cfgStore ?s') (ToLower section) (ToLower key) = Some ?vs'"
    by (simp add: lookup2_def)
  have g': "Get ?s' section key = (?vs', ?s')"
    using assms(2) by (simp add: Get_def lookup2_def Let_def idem comp_def)
  have clean: "\<forall>v \<in> set ?vs'. CHR 0x5C \<notin> set v"
    by (auto simp: strip_escape_def)
  have changed: "snd (Get s section key) \<noteq> s" if "\<exists>v \<in> set vs. CHR 0x5C \<in> set v"
  proof
    assume "snd (Get s section key) = s"
    then have "lookup2 (cfgStore s) (ToLower section) (ToLower key) = Some ?vs'"
      using g l' by simp
    then have "vs = ?vs'" using assms(1) by simp
    then show False using that clean by auto
  qed
  show ?thesis using g l' g' clean changed by simp
qed

theorem Get_overwrites_store_witness:
  "lookup2 [''s'' \<mapsto> [''k'' \<mapsto> [[CHR ''a'', CHR 0x5C, CHR ''b'']]]] ''s'' ''k''
     = Some [[CHR ''a'', CHR 0x5C, CHR ''b'']]
   \<and> fst (Get \<lparr>store_file = ''f'',
               cfgStore = [''s'' \<mapsto> [''k'' \<mapsto> [[CHR ''a'', CHR 0x5C, CHR ''b'']]]]\<rparr> ''S'' ''K'')
       = [''ab'']
   \<and> lookup2 (cfgStore (snd (Get \<lparr>store_file = ''f'',
               cfgStore = [''s'' \<mapsto> [''k'' \<mapsto> [[CHR ''a'', CHR 0x5C, CHR ''b'']]]]\<rparr> ''S'' ''K'')))
         ''s'' ''k'' = Some [''ab'']
   \<and> snd (Get \<lparr>store_file = ''f'',
               cfgStore = [''s'' \<mapsto> [''k'' \<mapsto> [[CHR ''a'', CHR 0x5C, CHR ''b'']]]]\<rparr> ''S'' ''K'')
       \<noteq> \<lparr>store_file = ''f'',
           cfgStore = [''s'' \<mapsto> [''k'' \<mapsto> [[CHR ''a'', CHR 0x5C, CHR ''b'']]]]\<rparr>"
proof -
  let ?s = "\<lparr>store_file = ''f'',
             cfgStore = [''s'' \<mapsto> [''k'' \<mapsto> [[CHR ''a'', CHR 0x5C, CHR ''b'']]]]\<rparr>"
  have low: "ToLower ''S'' = ''s''" "ToLower ''K'' = ''k''"
    by (simp_all add: ToLower_def toLower_char_def)
  have h: "lookup2 (cfgStore ?s) (ToLower ''S'') (ToLower ''K'')
             = Some [[CHR ''a'', CHR 0x5C, CHR ''b'']]"
    by (simp add: low lookup2_def)
  have ne: "[[CHR ''a'', CHR 0x5C, CHR ''b'']] \<noteq> []" by simp
  show ?thesis
    using h Get_overwrites_store [OF h ne] by (simp add: low strip_escape_def lookup2_def)
qed

subsection \<open>Set\<close>

text \<open>
  C4. When some value holds one of the reserved characters \<open>[\<close>, \<open>]\<close> and \<open>,\<close>, \<open>Set\<close> returns
  an error that names a reserved character and the value of the list that holds it, and
  the file system and the store are the ones it was given. This holds for every file
  system, also one without the file: the values are checked before the file is opened.
\<close>

theorem Set_rejects_reserved:
  assumes "v \<in> set value" and "c \<in> set v"
    and "c = CHR ''['' \<or> c = CHR '']'' \<or> c = CHR '',''"
  shows "\<exists>ch val. Set fs s section key value = (fs, s, Some (InvalidChar ch val))
            \<and> val \<in> set value \<and> ch \<in> set val
            \<and> (ch = CHR ''['' \<or> ch = CHR '']'' \<or> ch = CHR '','')"
proof -
  have "check_values value \<noteq> None"
    using assms by (auto simp: check_values_None is_reserved_def)
  then obtain e where e: "check_values value = Some e" by auto
  from check_values_Some [OF e] Set_error [OF e] show ?thesis
    by (auto simp: is_reserved_def)
qed

theorem Set_rejects_reserved_witness:
  "\<exists>ch val. Set [''cfg'' \<mapsto> ''[s]''] \<lparr>store_file = ''cfg'', cfgStore = [''s'' \<mapsto> Map.empty]\<rparr>
              ''s'' ''k'' [''a,b'']
            = ([''cfg'' \<mapsto> ''[s]''], \<lparr>store_file = ''cfg'', cfgStore = [''s'' \<mapsto> Map.empty]\<rparr>,
               Some (InvalidChar ch val))
          \<and> val = ''a,b'' \<and> ch = CHR '',''"
  using Set_rejects_reserved [of "''a,b''" "[''a,b'']" "CHR '',''"
      "[''cfg'' \<mapsto> ''[s]'']" "\<lparr>store_file = ''cfg'', cfgStore = [''s'' \<mapsto> Map.empty]\<rparr>"
      "''s''" "''k''"]
  by auto

text \<open>
  C7. Round trip: when \<open>Set\<close> of a non-empty value list returns without an error, no value
  of the list holds a reserved character, and \<open>Get\<close> of the same section and key on the
  store that \<open>Set\<close> leaves returns the values in their order, each with its backslashes
  removed.
\<close>

theorem Set_Get_roundtrip:
  assumes "vs \<noteq> []" and "Set fs s section key vs = (fs', s', None)"
  shows "(\<forall>v \<in> set vs. \<forall>c \<in> set v. c \<noteq> CHR ''['' \<and> c \<noteq> CHR '']'' \<and> c \<noteq> CHR '','')
       \<and> fst (Get s' section key) = map (filter (\<lambda>c. c \<noteq> CHR 0x5C)) vs"
proof -
  from Set_None_store [OF assms(2)] have ok: "check_values vs = None"
    and s': "s' = s\<lparr>cfgStore := (cfgStore s)(ToLower section \<mapsto>
          (case cfgStore s (ToLower section) of None \<Rightarrow> Map.empty | Some km \<Rightarrow> km)
            (ToLower key \<mapsto> vs))\<rparr>"
    by simp_all
  have "\<forall>v \<in> set vs. \<forall>c \<in> set v. c \<noteq> CHR ''['' \<and> c \<noteq> CHR '']'' \<and> c \<noteq> CHR '',''"
    using ok by (auto simp: check_values_None is_reserved_def)
  moreover have "fst (Get s' section key) = map (filter (\<lambda>c. c \<noteq> CHR 0x5C)) vs"
    using assms(1) s' by (simp add: Get_def lookup2_def Let_def strip_escape_def)
  ultimately show ?thesis by simp
qed

theorem Set_Get_roundtrip_witness:
  "\<exists>fs' s'. Set [''cfg'' \<mapsto> ''''] \<lparr>store_file = ''cfg'', cfgStore = Map.empty\<rparr>
               ''Sec'' ''Key'' [''v'', [CHR ''a'', CHR 0x5C, CHR ''b'']] = (fs', s', None)
           \<and> fst (Get s' ''Sec'' ''Key'') = [''v'', ''ab'']"
proof -
  let ?vs = "[''v'', [CHR ''a'', CHR 0x5C, CHR ''b'']]"
  have "check_values ?vs = None"
    by (simp add: is_reserved_def)
  from Set_success [OF this, of "[''cfg'' \<mapsto> '''']"
      "\<lparr>store_file = ''cfg'', cfgStore = Map.empty\<rparr>" "''''" "''Sec''" "''Key''"]
  obtain fs' s' where set:
    "Set [''cfg'' \<mapsto> ''''] \<lparr>store_file = ''cfg'', cfgStore = Map.empty\<rparr> ''Sec'' ''Key'' ?vs
       = (fs', s', None)"
    by auto
  have ne: "?vs \<noteq> []" by simp
  from Set_Get_roundtrip [OF ne set] have "fst (Get s' ''Sec'' ''Key'') = [''v'', ''ab'']"
    by simp
  with set show ?thesis by blast
qed

subsection \<open>Load\<close>



text \<open>
  C3. The file whose only line is \<open>key = value\<close> has no section header. \<open>Load\<close> does not
  return a syntax error for it: at the end of the line it stores the key under the
  section named by the empty string, which is not in the map, and the assignment panics.
\<close>

theorem Load_assignment_without_section_panics:
  "Load [''cfg'' \<mapsto> ''key = value'' @ [CHR 0x0A]] ''cfg'' = Panicked"
  by (simp add: load_eval)

text \<open>
  C6. The file whose only line is \<open>[abc\<close>, a \<open>[\<close> with no \<open>]\<close> after it, loads without an
  error: the test for the two brackets holds as soon as the line has a \<open>[\<close>, and the
  section \<open>ab\<close>, the line without its first and its last character, is created.
\<close>

theorem Load_unclosed_header_accepted:
  "Load [''cfg'' \<mapsto> ''[abc'' @ [CHR 0x0A]] ''cfg''
     = Returned (Some \<lparr>store_file = ''cfg'', cfgStore = [''ab'' \<mapsto> Map.empty]\<rparr>, None)"
  by (simp add: load_eval)

subsection \<open>Exists and ListKeys\<close>

text \<open>
  C1. In the store loaded from the file whose only line is \<open>[s]\<close>, the section \<open>s\<close> has no
  key \<open>k\<close>, and \<open>Exists\<close> of \<open>s\<close> and \<open>k\<close> is true: with a section that exists, \<open>Exists\<close>
  returns before it looks at the key.
\<close>

theorem Exists_two_arguments_ignores_key:
  "\<exists>s. Load [''cfg'' \<mapsto> ''[s]'' @ [CHR 0x0A]] ''cfg'' = Returned (Some s, None)
      \<and> cfgStore s ''s'' \<noteq> None
      \<and> lookup2 (cfgStore s) ''s'' ''k'' = None
      \<and> Exists s [''s'', ''k'']"
  by (simp add: load_eval lookup2_def Exists_def)

text \<open>
  C2. In the store loaded from the file with the lines \<open>[sec]\<close> and \<open>k = v\<close>, \<open>Exists\<close> and
  \<open>ListKeys\<close> find the section under \<open>sec\<close>, the lower-cased form of \<open>SEC\<close>, and not under
  \<open>SEC\<close>: they look their arguments up as they are given.
\<close>

theorem Exists_ListKeys_case_sensitive:
  "\<exists>s. Load [''cfg'' \<mapsto> ''[sec]'' @ [CHR 0x0A] @ ''k = v'' @ [CHR 0x0A]] ''cfg''
         = Returned (Some s, None)
      \<and> Exists s [ToLower ''SEC''] \<and> \<not> Exists s [''SEC'']
      \<and> Exists s [ToLower ''SEC'', ToLower ''K''] \<and> \<not> Exists s [''SEC'', ''K'']
      \<and> ListKeys s (ToLower ''SEC'') = {''k''} \<and> ListKeys s ''SEC'' = {}
      \<and> fst (Get s ''SEC'' ''K'') = [''v'']"
  by (simp add: load_eval lookup2_def Exists_def ListKeys_def Get_def strip_escape_def)

subsection \<open>Where SetFile puts a new key\<close>














lemma join_lines_append: "join_lines (xs @ ys) = join_lines xs @ join_lines ys"
  by (simp add: join_lines_def)





text \<open>
  The block of a key with values that are not empty: the line \<open>key = v0\<close>, then one line
  for each other value, indented by the length of \<open>key = \<close>; every line but the last ends
  in a comma.
\<close>

lemma value_txt_rest:
  "\<forall>v \<in> set vs. v \<noteq> [] \<Longrightarrow> 0 < i \<Longrightarrow>
   value_txt key i vs = map (\<lambda>v. replicate (length (key @ '' = '')) CHR '' '' @ v) vs"
  by (induction vs arbitrary: i) simp_all

lemma write_txt_lines:
  "write_txt {cfg_HEADER} (int i + int (length ls) - 1) i ls
     = join_lines (map (\<lambda>l. l @ '','') (butlast ls) @ (if ls = [] then [] else [last ls]))"
proof (induction ls arbitrary: i)
  case Nil
  then show ?case by (simp add: join_lines_def)
next
  case (Cons out rest)
  have "int (Suc i) + int (length rest) - 1 = int i + int (length (out # rest)) - 1"
    by simp
  then have IH: "write_txt {cfg_HEADER} (int i + int (length (out # rest)) - 1) (Suc i) rest
     = join_lines (map (\<lambda>l. l @ '','') (butlast rest) @ (if rest = [] then [] else [last rest]))"
    using Cons.IH [of "Suc i"] by simp
  show ?case
  proof (cases "rest = []")
    case True
    then show ?thesis by (simp add: join_lines_def)
  next
    case False
    then have "int i < int i + int (length (out # rest)) - 1"
      by (cases rest) simp_all
    then show ?thesis using False IH by (simp add: join_lines_def)
  qed
qed

lemma write_txt_lines0:
  "ls \<noteq> [] \<Longrightarrow>
   write_txt {cfg_HEADER} (int (length ls) - 1) 0 ls
     = join_lines (map (\<lambda>l. l @ '','') (butlast ls) @ [last ls])"
  using write_txt_lines [of 0 ls] by simp

lemma key_block_lines:
  assumes "v0 \<noteq> []" and "\<forall>v \<in> set vs. v \<noteq> []"
  shows "key_block key (v0 # vs)
     = join_lines (map (\<lambda>l. l @ '','')
                     (butlast ((key @ '' = '' @ v0)
                        # map (\<lambda>v. replicate (length (key @ '' = '')) CHR '' '' @ v) vs))
                   @ [last ((key @ '' = '' @ v0)
                        # map (\<lambda>v. replicate (length (key @ '' = '')) CHR '' '' @ v) vs)])"
proof -
  let ?txt = "(key @ '' = '' @ v0) # map (\<lambda>v. replicate (length (key @ '' = '')) CHR '' '' @ v) vs"
  have vt: "value_txt key 0 (v0 # vs) = ?txt"
    using assms value_txt_rest [of vs "Suc 0" key] by simp
  have ne: "?txt \<noteq> []" by simp
  show ?thesis
    unfolding key_block_def vt Let_def by (rule write_txt_lines0 [OF ne])
qed




end
